theory Spec2Isabelle
  imports Main
begin

section \<open>Values, errors and the heap of Optional objects\<close>

text \<open>
  The class \<open>Optional<T>\<close> of \<open>src/optional-value.ts\<close> holds one field, \<open>_value\<close>, and
  compares it with the two absence markers of JavaScript. The values a container can
  hold are modelled by a datatype with both markers, the three primitive kinds the
  specification mentions (numbers, strings, booleans) and references to objects; a
  reference is an address, and two references are the very same object exactly when
  the addresses are equal. Numbers are integers here: no operation of the class
  computes with them.
\<close>

type_synonym addr = nat

datatype js_value =
    JNull
  | JUndefined
  | JBoolean bool
  | JNumber int
  | JString string
  | JObject addr

text \<open>
  \<open>class NoSuchElementException extends Error\<close> with \<open>constructor(message?: string)\<close>:
  a class of its own, with an optional message. Everything else that can be thrown
  (by a callback of the caller) is \<open>Thrown\<close> with the thrown value.
\<close>

datatype js_error =
    NoSuchElementException (message: "string option")
  | Thrown js_value

text \<open>The object: \<open>private _value: T\<close>.\<close>

record optional =
  value' :: js_value

text \<open>
  Optional objects live in a heap: \<open>orElse\<close> assigns to the field of \<open>this\<close> and returns
  \<open>this\<close>, so what it returns is an address and what it changes is the heap.
  \<open>fresh\<close> is the next address \<open>new\<close> hands out.
\<close>

record heap =
  objects :: "addr \<Rightarrow> optional"
  fresh :: addr

section \<open>The methods of Optional\<close>

text \<open>\<open>constructor(value: T) { this._value = value; return this; }\<close>\<close>

definition new_Optional :: "heap \<Rightarrow> js_value \<Rightarrow> addr \<times> heap" where
  "new_Optional h v =
     (fresh h, h\<lparr>objects := (objects h)(fresh h := \<lparr>value' = v\<rparr>), fresh := Suc (fresh h)\<rparr>)"

text \<open>\<open>static of<T>(value: T): Optional<T> { return new Optional(value); }\<close>\<close>

definition Optional_of :: "heap \<Rightarrow> js_value \<Rightarrow> addr \<times> heap" where
  "Optional_of h v = new_Optional h v"

text \<open>\<open>isPresent(): return this._value !== null && this._value !== undefined;\<close>\<close>

definition isPresent :: "heap \<Rightarrow> addr \<Rightarrow> bool" where
  "isPresent h this \<longleftrightarrow>
     value' (objects h this) \<noteq> JNull \<and> value' (objects h this) \<noteq> JUndefined"

text \<open>\<open>isEmpty(): return !this.isPresent();\<close>\<close>

definition isEmpty :: "heap \<Rightarrow> addr \<Rightarrow> bool" where
  "isEmpty h this \<longleftrightarrow> \<not> isPresent h this"

text \<open>
  \<open>get(): if (!this.isPresent()) { throw new NoSuchElementException(); } return this._value;\<close>
  The exception is built without a message.
\<close>

definition get :: "heap \<Rightarrow> addr \<Rightarrow> js_error + js_value" where
  "get h this =
     (if \<not> isPresent h this then Inl (NoSuchElementException None)
      else Inr (value' (objects h this)))"

text \<open>\<open>orElse(value): if (this.isEmpty()) { this._value = value; } return this;\<close>\<close>

definition orElse :: "heap \<Rightarrow> addr \<Rightarrow> js_value \<Rightarrow> addr \<times> heap" where
  "orElse h this v =
     (this,
      if isEmpty h this
      then h\<lparr>objects := (objects h)(this := (objects h this)\<lparr>value' := v\<rparr>)\<rparr>
      else h)"

text \<open>
  The callbacks are code of the caller. A call of one runs on a state \<open>'w\<close> of the
  caller's program, may change it, and either returns or throws. The methods do not
  depend on what that state is: it may be a log of calls, or the whole state of the
  program with the heap of Optional objects in it.
\<close>

type_synonym ('w, 'r) callback = "js_value \<Rightarrow> 'w \<Rightarrow> (js_error + 'r) \<times> 'w"

text \<open>
  \<open>ifPresent(func): if (this.isPresent()) { func(this._value); }\<close>
  What \<open>func\<close> returns is dropped; what it throws leaves \<open>ifPresent\<close>.
\<close>

definition ifPresent :: "heap \<Rightarrow> addr \<Rightarrow> ('w, 'r) callback \<Rightarrow> 'w \<Rightarrow> (js_error + unit) \<times> 'w" where
  "ifPresent h this func w =
     (if isPresent h this
      then (case func (value' (objects h this)) w of
              (Inl e, w') \<Rightarrow> (Inl e, w')
            | (Inr _, w') \<Rightarrow> (Inr (), w'))
      else (Inr (), w))"

text \<open>\<open>isPresentAnd(predicate): return this.isPresent() && predicate(this._value);\<close>\<close>

definition isPresentAnd :: "heap \<Rightarrow> addr \<Rightarrow> ('w, bool) callback \<Rightarrow> 'w \<Rightarrow> (js_error + bool) \<times> 'w" where
  "isPresentAnd h this predicate w =
     (if isPresent h this then predicate (value' (objects h this)) w
      else (Inr False, w))"

section \<open>Promises and the asynchronous method\<close>

text \<open>
  A promise of the caller is either settled (fulfilled with a value, or rejected with an
  error) or pending: a pending promise holds the work that the event loop resumes, which
  changes the caller's world and leaves a promise again. The scheduling is single-threaded
  and cooperative, so one resumption is one step of the world.
\<close>

datatype ('w, 'a) promise =
    Settled "js_error + 'a"
  | Pending "'w \<Rightarrow> ('w, 'a) promise \<times> 'w"

text \<open>
  \<open>await p\<close> inside an async function, followed by the rest \<open>k\<close> of the body: the body
  continues with the value once \<open>p\<close> is fulfilled; a rejection is thrown at the
  \<open>await\<close>, and as nothing catches it, it rejects the promise of the async function.
  The steps counted are those of the awaited work; taking up the body again once \<open>p\<close>
  has settled is not a step of its own.
\<close>

primrec await :: "('w, 'a) promise \<Rightarrow> ('a \<Rightarrow> ('w, 'b) promise) \<Rightarrow> ('w, 'b) promise" where
  "await (Settled r) k = (case r of Inl e \<Rightarrow> Settled (Inl e) | Inr a \<Rightarrow> k a)"
| "await (Pending f) k = Pending (\<lambda>w. map_prod (\<lambda>p. await p k) id (f w))"

text \<open>
  The event loop, resuming a promise at most \<open>n\<close> times: the outcome if the promise has
  settled by then, and the world it leaves.
\<close>

fun settle :: "nat \<Rightarrow> ('w, 'a) promise \<Rightarrow> 'w \<Rightarrow> (js_error + 'a) option \<times> 'w" where
  "settle n (Settled r) w = (Some r, w)"
| "settle 0 (Pending f) w = (None, w)"
| "settle (Suc n) (Pending f) w = (case f w of (p, w') \<Rightarrow> settle n p w')"

text \<open>
  \<open>async ifPresentAsync(func): if (this.isPresent()) { await func(this._value); }\<close>
  An async function never throws to its caller: it returns a promise. The call
  \<open>func(this._value)\<close> runs at once; if it throws, the promise is rejected with what it
  threw; otherwise it returns a promise, which is awaited, and the body ends (the promise
  is fulfilled with no value).
\<close>

definition ifPresentAsync ::
    "heap \<Rightarrow> addr \<Rightarrow> ('w, ('w, 'a) promise) callback \<Rightarrow> 'w \<Rightarrow> ('w, unit) promise \<times> 'w" where
  "ifPresentAsync h this func w =
     (if isPresent h this
      then (case func (value' (objects h this)) w of
              (Inl e, w') \<Rightarrow> (Settled (Inl e), w')
            | (Inr p, w') \<Rightarrow> (await p (\<lambda>_. Settled (Inr ())), w'))
      else (Settled (Inr ()), w))"

section \<open>Callers: one call, and sequences of calls\<close>

text \<open>
  The state of a running program: the heap of Optional objects and the rest of the
  caller's world.
\<close>

record 'w state =
  opts :: heap
  world :: 'w

text \<open>
  What a program does with containers, one step at a time: a call of a method of the
  class, or a turn of the event loop that resumes a pending promise up to \<open>n\<close> times.
  The callbacks passed to \<open>ifPresent\<close>, \<open>isPresentAnd\<close> and \<open>ifPresentAsync\<close> are code of the
  caller and run inside the call, on the whole state of the program: \<open>private\<close> is erased
  at run time, so a callback can call methods of any container and can also assign to
  \<open>c['_value']\<close>. The same holds for the work of a pending promise.
\<close>

datatype 'w op =
    Of js_value
  | Get addr
  | OrElse addr js_value
  | IfPresent addr "('w state, unit) callback"
  | IsEmpty addr
  | IsPresent addr
  | IsPresentAnd addr "('w state, bool) callback"
  | IfPresentAsync addr "('w state, ('w state, unit) promise) callback"
  | Resume nat "('w state, unit) promise"

datatype 'w result =
    RValue js_value
  | ROptional addr
  | RBoolean bool
  | RVoid
  | RPromise "('w state, unit) promise"

text \<open>
  One step. A method reads the field of \<open>this\<close> in the heap as it is when the method is
  called, and then, if it calls the callback, the callback runs on the whole state; the
  state after the call is the state the callback has left.
\<close>

fun exec :: "'w op \<Rightarrow> 'w state \<Rightarrow> (js_error + 'w result) \<times> 'w state" where
  "exec (Of v) s =
     (case Optional_of (opts s) v of (r, h') \<Rightarrow> (Inr (ROptional r), s\<lparr>opts := h'\<rparr>))"
| "exec (Get a) s =
     (case get (opts s) a of Inl e \<Rightarrow> (Inl e, s) | Inr v \<Rightarrow> (Inr (RValue v), s))"
| "exec (OrElse a v) s =
     (case orElse (opts s) a v of (r, h') \<Rightarrow> (Inr (ROptional r), s\<lparr>opts := h'\<rparr>))"
| "exec (IfPresent a f) s =
     (case ifPresent (opts s) a f s of
        (Inl e, s') \<Rightarrow> (Inl e, s')
      | (Inr _, s') \<Rightarrow> (Inr RVoid, s'))"
| "exec (IsEmpty a) s = (Inr (RBoolean (isEmpty (opts s) a)), s)"
| "exec (IsPresent a) s = (Inr (RBoolean (isPresent (opts s) a)), s)"
| "exec (IsPresentAnd a f) s =
     (case isPresentAnd (opts s) a f s of
        (Inl e, s') \<Rightarrow> (Inl e, s')
      | (Inr b, s') \<Rightarrow> (Inr (RBoolean b), s'))"
| "exec (IfPresentAsync a f) s =
     (case ifPresentAsync (opts s) a f s of (p, s') \<Rightarrow> (Inr (RPromise p), s'))"
| "exec (Resume n p) s = (Inr RVoid, snd (settle n p s))"

text \<open>
  A sequence of steps. The caller may catch what a call throws and go on, so the
  sequence continues after an error.
\<close>

fun run :: "'w op list \<Rightarrow> 'w state \<Rightarrow> 'w state" where
  "run [] s = s"
| "run (c # cs) s = run cs (snd (exec c s))"



definition clearing :: "addr \<Rightarrow> ('w state, unit) callback" where
  "clearing c v s =
     (Inr (), s\<lparr>opts := (opts s)\<lparr>objects := (objects (opts s))(c := \<lparr>value' = JNull\<rparr>)\<rparr>\<rparr>)"


text \<open>
  \<open>keeps_present s s'\<close>: from \<open>s\<close> to \<open>s'\<close> no container was lost, and every container that
  was present in \<open>s\<close> holds the same value in \<open>s'\<close>. Code of the caller is careful if it
  takes every state to one related to it in this way: a callback at its call, a promise
  at each of its resumptions, an asynchronous action at both.
\<close>

definition keeps_present :: "'w state \<Rightarrow> 'w state \<Rightarrow> bool" where
  "keeps_present s s' \<longleftrightarrow>
     fresh (opts s) \<le> fresh (opts s')
     \<and> (\<forall>a < fresh (opts s). isPresent (opts s) a \<longrightarrow>
           objects (opts s') a = objects (opts s) a)"

definition careful :: "('w state, 'r) callback \<Rightarrow> bool" where
  "careful f \<longleftrightarrow> (\<forall>v s. keeps_present s (snd (f v s)))"




text \<open>
  Callbacks used as concrete inputs. \<open>spy\<close> records each call with its argument, as the
  spy on \<open>console.log\<close> of the test suite does; \<open>greater_than_five\<close> is the predicate
  \<open>(value) => value > 5\<close> of the test suite, on numbers; \<open>failing\<close> records the call and
  throws its argument.
\<close>

definition spy :: "(js_value list, unit) callback" where
  "spy v calls = (Inr (), calls @ [v])"

definition greater_than_five :: "(js_value list, bool) callback" where
  "greater_than_five v calls =
     (case v of JNumber n \<Rightarrow> (Inr (5 < n), calls @ [v]) | _ \<Rightarrow> (Inr False, calls @ [v]))"

definition failing :: "(js_value list, 'r) callback" where
  "failing v calls = (Inl (Thrown v), calls @ [v])"

text \<open>
  \<open>slow_spy\<close> is an asynchronous action: it records the call at once and returns a
  promise that is still pending after one resumption and records once more when it is
  fulfilled at the second. \<open>rejecting\<close> records the call and returns a promise that is
  rejected with the argument at the first resumption.
\<close>

definition slow_spy :: "(js_value list, (js_value list, unit) promise) callback" where
  "slow_spy v calls =
     (Inr (Pending (\<lambda>w1. (Pending (\<lambda>w2. (Settled (Inr ()), w2 @ [v])), w1))), calls @ [v])"

definition rejecting :: "(js_value list, (js_value list, unit) promise) callback" where
  "rejecting v calls = (Inr (Pending (\<lambda>w1. (Settled (Inl (Thrown v)), w1))), calls @ [v])"

text \<open>
  The expression \<open>Optional.of(y).orElse(x).get()\<close> of the class's documentation and of
  its test suite: each call acts on what the call before returned.
\<close>

definition chain_of_orElse_get :: "heap \<Rightarrow> js_value \<Rightarrow> js_value \<Rightarrow> js_error + js_value" where
  "chain_of_orElse_get h y x =
     (case Optional_of h y of (r, h1) \<Rightarrow>
        (case orElse h1 r x of (r', h2) \<Rightarrow> get h2 r'))"

text \<open>
  The heap before any object is created, and a heap with two containers:
  \<open>Optional.of(6)\<close> at address 0 and \<open>Optional.of(null)\<close> at address 1.
\<close>

definition empty_heap :: heap where
  "empty_heap = \<lparr>objects = (\<lambda>_. \<lparr>value' = JUndefined\<rparr>), fresh = 0\<rparr>"

definition two_containers :: heap where
  "two_containers = snd (Optional_of (snd (Optional_of empty_heap (JNumber 6))) JNull)"

text \<open>
  A program state with these two containers and an empty log of calls, and a sequence
  of steps on it in which every callback reaches the containers through methods only:
  among them \<open>b.ifPresent(() => { a.orElse(7); b.orElse(null) })\<close>, an asynchronous action
  that calls \<open>b.orElse(undefined)\<close> when it is resumed, and the resumption of the promise
  that \<open>ifPresentAsync\<close> returned for it.
\<close>

definition program_state :: "js_value list state" where
  "program_state = \<lparr>opts = two_containers, world = []\<rparr>"


section \<open>Facts about creation\<close>

lemma Optional_of_fst: "fst (Optional_of h v) = fresh h"
  by (simp add: Optional_of_def new_Optional_def)

lemma Optional_of_stored: "value' (objects (snd (Optional_of h v)) (fresh h)) = v"
  by (simp add: Optional_of_def new_Optional_def)

lemma isPresent_Optional_of:
  "isPresent (snd (Optional_of h v)) (fresh h) \<longleftrightarrow> v \<noteq> JNull \<and> v \<noteq> JUndefined"
  by (simp add: isPresent_def Optional_of_stored)

lemma fresh_empty_heap: "fresh empty_heap = 0"
  by (simp add: empty_heap_def)

lemma two_containers_simps:
  "fresh two_containers = 2"
  "objects two_containers 0 = \<lparr>value' = JNumber 6\<rparr>"
  "objects two_containers (Suc 0) = \<lparr>value' = JNull\<rparr>"
  by (simp_all add: two_containers_def Optional_of_def new_Optional_def empty_heap_def)

lemma two_containers_presence:
  "isPresent two_containers 0" "isEmpty two_containers (Suc 0)"
  by (simp_all add: isPresent_def isEmpty_def two_containers_simps)

section \<open>Presence\<close>

text \<open>
  Claim C1. \<open>isPresent()\<close> is true exactly when the stored value is neither \<open>null\<close> nor
  \<open>undefined\<close>; so a container created with \<open>of(v)\<close> is present exactly when \<open>v\<close> is
  neither, and the falsy values \<open>0\<close>, \<open>""\<close> and \<open>false\<close> are present. A call of
  \<open>isPresent()\<close> leaves the heap and the caller's world as they were.
\<close>

theorem isPresent_iff_not_sentinel:
  "(isPresent h this \<longleftrightarrow>
      value' (objects h this) \<noteq> JNull \<and> value' (objects h this) \<noteq> JUndefined)
   \<and> (isPresent (snd (Optional_of h v)) (fst (Optional_of h v)) \<longleftrightarrow>
        v \<noteq> JNull \<and> v \<noteq> JUndefined)
   \<and> isPresent (snd (Optional_of h (JNumber 0))) (fst (Optional_of h (JNumber 0)))
   \<and> isPresent (snd (Optional_of h (JString ''''))) (fst (Optional_of h (JString '''')))
   \<and> isPresent (snd (Optional_of h (JBoolean False))) (fst (Optional_of h (JBoolean False)))
   \<and> exec (IsPresent this) s = (Inr (RBoolean (isPresent (opts s) this)), s)"
  by (simp add: Optional_of_fst isPresent_Optional_of) (simp add: isPresent_def)

section \<open>Unwrapping\<close>

lemma get_cases:
  "get h this =
     (if isEmpty h this then Inl (NoSuchElementException None)
      else Inr (value' (objects h this)))"
  by (simp add: get_def isEmpty_def)

lemma exec_error_origin:
  assumes "fst (exec c s) = Inl e"
  shows "(\<exists>a. c = Get a \<and> isEmpty (opts s) a \<and> e = NoSuchElementException None)
       \<or> (\<exists>a f. c = IfPresent a f \<and> isPresent (opts s) a
              \<and> fst (f (value' (objects (opts s) a)) s) = Inl e)
       \<or> (\<exists>a f. c = IsPresentAnd a f \<and> isPresent (opts s) a
              \<and> fst (f (value' (objects (opts s) a)) s) = Inl e)"
proof (cases c)
  case (Get a)
  with assms show ?thesis
    by (simp add: get_cases split: if_splits)
next
  case (IfPresent a f)
  with assms show ?thesis
    by (auto simp: ifPresent_def split: if_splits prod.splits sum.splits)
next
  case (IsPresentAnd a f)
  with assms show ?thesis
    by (auto simp: isPresentAnd_def split: if_splits prod.splits sum.splits)
qed (use assms in \<open>auto split: prod.splits\<close>)

text \<open>
  Claim C2. \<open>get()\<close> throws a \<open>NoSuchElementException\<close> exactly when the container is
  empty, and returns the stored value otherwise. The exception is of a kind of its own,
  different from every other thrown value. No other method throws it: an error that
  leaves a call of any method is either the exception of \<open>get()\<close> on an empty container,
  or the very error that the caller's own callback threw inside \<open>ifPresent\<close> or
  \<open>isPresentAnd\<close> on a present container.
\<close>

theorem get_raises_iff_empty:
  "get h this =
     (if isEmpty h this then Inl (NoSuchElementException None)
      else Inr (value' (objects h this)))
   \<and> ((\<exists>m. get h this = Inl (NoSuchElementException m)) \<longleftrightarrow> isEmpty h this)
   \<and> ((\<exists>x. get h this = Inr x) \<longleftrightarrow> isPresent h this)
   \<and> NoSuchElementException m \<noteq> Thrown x
   \<and> (fst (exec c s) = Inl e \<longrightarrow>
        (\<exists>a. c = Get a \<and> isEmpty (opts s) a \<and> e = NoSuchElementException None)
      \<or> (\<exists>a f. c = IfPresent a f \<and> isPresent (opts s) a
             \<and> fst (f (value' (objects (opts s) a)) s) = Inl e)
      \<or> (\<exists>a f. c = IsPresentAnd a f \<and> isPresent (opts s) a
             \<and> fst (f (value' (objects (opts s) a)) s) = Inl e))"
proof -
  have "(\<exists>m. get h this = Inl (NoSuchElementException m)) \<longleftrightarrow> isEmpty h this"
    by (simp add: get_cases)
  moreover have "(\<exists>x. get h this = Inr x) \<longleftrightarrow> isPresent h this"
    by (simp add: get_cases isEmpty_def)
  ultimately show ?thesis
    using get_cases [of h this] exec_error_origin [of c s e] by simp
qed

theorem get_raises_iff_empty_witness:
  "fst (exec (Get 0) \<lparr>opts = snd (Optional_of empty_heap JNull), world = ()\<rparr>)
     = Inl (NoSuchElementException None)
   \<and> isEmpty (snd (Optional_of empty_heap JNull)) 0
   \<and> get (snd (Optional_of empty_heap JNull)) 0 = Inl (NoSuchElementException None)"
  using get_raises_iff_empty
    [of "snd (Optional_of empty_heap JNull)" 0 None JNull "Get 0"
        "\<lparr>opts = snd (Optional_of empty_heap JNull), world = ()\<rparr>"
        "NoSuchElementException None"]
    isPresent_Optional_of [of empty_heap JNull]
  by (simp add: isEmpty_def fresh_empty_heap get_def)

section \<open>Default substitution\<close>

lemma orElse_fst: "fst (orElse h this d) = this"
  by (simp add: orElse_def)

lemma orElse_present: "isPresent h this \<Longrightarrow> snd (orElse h this d) = h"
  by (simp add: orElse_def isEmpty_def)

lemma orElse_empty:
  "isEmpty h this \<Longrightarrow> value' (objects (snd (orElse h this d)) this) = d"
  by (simp add: orElse_def)

lemma orElse_others: "a \<noteq> this \<Longrightarrow> objects (snd (orElse h this d)) a = objects h a"
  by (simp add: orElse_def)

lemma get_after_orElse:
  "get (snd (orElse h this d)) this =
     (if isPresent h this then Inr (value' (objects h this))
      else if d = JNull \<or> d = JUndefined then Inl (NoSuchElementException None)
      else Inr d)"
  by (auto simp: orElse_def get_def isEmpty_def isPresent_def)

lemma chain_of_orElse_get_eq:
  "chain_of_orElse_get h y x =
     (if y \<noteq> JNull \<and> y \<noteq> JUndefined then Inr y
      else if x = JNull \<or> x = JUndefined then Inl (NoSuchElementException None)
      else Inr x)"
  using get_after_orElse [of "snd (Optional_of h y)" "fresh h" x]
        isPresent_Optional_of [of h y] Optional_of_stored [of h y]
  by (simp add: chain_of_orElse_get_def split_beta orElse_fst Optional_of_fst)

text \<open>
  Claim C3. \<open>orElse(d)\<close> returns \<open>this\<close>, the very container it was called on. Called on
  an empty container it writes \<open>d\<close> into the field of that container; called on a present
  one it leaves the heap as it was. No other container is written. So
  \<open>of(null).orElse(x).get()\<close> and \<open>of(undefined).orElse(x).get()\<close> return \<open>x\<close> for every
  present \<open>x\<close>, and \<open>of(y).orElse(x).get()\<close> returns \<open>y\<close> for every present \<open>y\<close>.
\<close>

theorem orElse_substitutes_when_empty:
  "fst (orElse h this d) = this
   \<and> (isEmpty h this \<longrightarrow> value' (objects (snd (orElse h this d)) this) = d)
   \<and> (isPresent h this \<longrightarrow> snd (orElse h this d) = h)
   \<and> (a \<noteq> this \<longrightarrow> objects (snd (orElse h this d)) a = objects h a)
   \<and> (x \<noteq> JNull \<and> x \<noteq> JUndefined \<longrightarrow>
        chain_of_orElse_get h JNull x = Inr x \<and> chain_of_orElse_get h JUndefined x = Inr x)
   \<and> (y \<noteq> JNull \<and> y \<noteq> JUndefined \<longrightarrow> chain_of_orElse_get h y x = Inr y)"
  by (simp add: orElse_fst orElse_empty orElse_present orElse_others chain_of_orElse_get_eq)

theorem orElse_substitutes_when_empty_witness:
  "isEmpty (snd (Optional_of empty_heap JNull)) 0
   \<and> value' (objects (snd (orElse (snd (Optional_of empty_heap JNull)) 0 (JNumber 5))) 0) = JNumber 5
   \<and> isPresent (snd (Optional_of empty_heap (JString ''a''))) 0
   \<and> snd (orElse (snd (Optional_of empty_heap (JString ''a''))) 0 (JNumber 5))
       = snd (Optional_of empty_heap (JString ''a''))
   \<and> (1 :: addr) \<noteq> 0
   \<and> objects (snd (orElse (snd (Optional_of empty_heap JNull)) 0 (JNumber 5))) 1
       = objects (snd (Optional_of empty_heap JNull)) 1
   \<and> JNumber 5 \<noteq> JNull \<and> JNumber 5 \<noteq> JUndefined
   \<and> chain_of_orElse_get empty_heap JNull (JNumber 5) = Inr (JNumber 5)
   \<and> chain_of_orElse_get empty_heap JUndefined (JNumber 5) = Inr (JNumber 5)
   \<and> JString ''a'' \<noteq> JNull \<and> JString ''a'' \<noteq> JUndefined
   \<and> chain_of_orElse_get empty_heap (JString ''a'') (JNumber 5) = Inr (JString ''a'')"
  using orElse_substitutes_when_empty
          [of "snd (Optional_of empty_heap JNull)" 0 "JNumber 5" 1 "JNumber 5" "JString ''a''"]
        orElse_substitutes_when_empty
          [of "snd (Optional_of empty_heap (JString ''a''))" 0 "JNumber 5" 1 "JNumber 5" "JString ''a''"]
        orElse_substitutes_when_empty
          [of empty_heap 0 "JNumber 5" 1 "JNumber 5" "JString ''a''"]
        isPresent_Optional_of [of empty_heap JNull]
        isPresent_Optional_of [of empty_heap "JString ''a''"]
  by (simp add: isEmpty_def fresh_empty_heap)

text \<open>
  Claim C10. \<open>orElse\<close> does not look at its argument: called on an empty container with
  \<open>null\<close> or \<open>undefined\<close> it stores that marker and returns the same container, which is
  still empty, and \<open>get()\<close> on it still throws the \<open>NoSuchElementException\<close>.
\<close>

theorem orElse_absent_default_stays_empty:
  "isEmpty h this \<and> (d = JNull \<or> d = JUndefined) \<longrightarrow>
     fst (orElse h this d) = this
     \<and> value' (objects (snd (orElse h this d)) this) = d
     \<and> isEmpty (snd (orElse h this d)) this
     \<and> get (snd (orElse h this d)) (fst (orElse h this d)) = Inl (NoSuchElementException None)"
  by (auto simp: orElse_fst orElse_empty get_after_orElse isEmpty_def isPresent_def)

theorem orElse_absent_default_stays_empty_witness:
  "isEmpty (snd (Optional_of empty_heap JUndefined)) 0
   \<and> isEmpty (snd (orElse (snd (Optional_of empty_heap JUndefined)) 0 JNull)) 0
   \<and> get (snd (orElse (snd (Optional_of empty_heap JUndefined)) 0 JNull)) 0
       = Inl (NoSuchElementException None)"
  using orElse_absent_default_stays_empty [of "snd (Optional_of empty_heap JUndefined)" 0 JNull]
        isPresent_Optional_of [of empty_heap JUndefined]
  by (simp add: isEmpty_def fresh_empty_heap orElse_fst)

section \<open>Round trip\<close>

text \<open>
  Claim C5. A container created with \<open>of(v)\<close> stores \<open>v\<close> itself, and for every \<open>v\<close> that
  is neither \<open>null\<close> nor \<open>undefined\<close>, \<open>of(v).get()\<close> returns \<open>v\<close>, with \<open>isPresent()\<close> true
  and \<open>isEmpty()\<close> false. For a reference to an object, what comes back is the same
  reference: the same address, not a copy.
\<close>

theorem of_get_round_trip:
  "value' (objects (snd (Optional_of h v)) (fst (Optional_of h v))) = v
   \<and> (v \<noteq> JNull \<and> v \<noteq> JUndefined \<longrightarrow>
        get (snd (Optional_of h v)) (fst (Optional_of h v)) = Inr v
        \<and> isPresent (snd (Optional_of h v)) (fst (Optional_of h v))
        \<and> \<not> isEmpty (snd (Optional_of h v)) (fst (Optional_of h v)))
   \<and> get (snd (Optional_of h (JObject b))) (fst (Optional_of h (JObject b))) = Inr (JObject b)"
  by (simp add: Optional_of_fst Optional_of_stored get_cases isEmpty_def isPresent_Optional_of)

theorem of_get_round_trip_witness:
  "JString ''test'' \<noteq> JNull \<and> JString ''test'' \<noteq> JUndefined
   \<and> get (snd (Optional_of empty_heap (JString ''test''))) (fst (Optional_of empty_heap (JString ''test'')))
       = Inr (JString ''test'')"
  using of_get_round_trip [of empty_heap "JString ''test''" 0] by simp

section \<open>The two states of a container\<close>

lemma program_state_opts: "opts program_state = two_containers"
  by (simp add: program_state_def)












lemma clearing_not_careful: "\<not> careful (clearing 0 :: (js_value list state, unit) callback)"
proof
  assume "careful (clearing 0 :: (js_value list state, unit) callback)"
  then have "keeps_present program_state (snd (clearing 0 JNull program_state))"
    by (simp add: careful_def)
  then have "objects (opts (snd (clearing 0 JNull program_state))) 0 = objects two_containers 0"
    using two_containers_presence
    by (simp add: keeps_present_def program_state_opts two_containers_simps)
  then show False
    by (simp add: clearing_def program_state_def two_containers_simps)
qed




section \<open>Conditional execution\<close>

text \<open>
  Claim C6. On an empty container \<open>ifPresent(action)\<close> returns without calling \<open>action\<close>:
  no error, and the caller's world is untouched. On a present container the world
  after the call is the world after one call of \<open>action\<close> on the stored value, and an
  error thrown by \<open>action\<close> leaves \<open>ifPresent\<close> as it is. With the recording callback
  \<open>spy\<close>: exactly one call is recorded, with the stored value, on a present container,
  and none on an empty one.
\<close>

theorem ifPresent_calls_action_once:
  "(isEmpty h this \<longrightarrow> ifPresent h this func w = (Inr (), w))
   \<and> (isPresent h this \<longrightarrow>
        fst (ifPresent h this func w)
          = map_sum id (\<lambda>_. ()) (fst (func (value' (objects h this)) w))
        \<and> snd (ifPresent h this func w) = snd (func (value' (objects h this)) w))
   \<and> (isPresent h this \<and> fst (func (value' (objects h this)) w) = Inl e \<longrightarrow>
        fst (ifPresent h this func w) = Inl e)
   \<and> (isEmpty h this \<longrightarrow> ifPresent h this spy calls = (Inr (), calls))
   \<and> (isPresent h this \<longrightarrow>
        ifPresent h this spy calls = (Inr (), calls @ [value' (objects h this)]))"
  by (auto simp: ifPresent_def isEmpty_def spy_def split: prod.splits sum.splits)

theorem ifPresent_calls_action_once_witness:
  "isPresent two_containers 0
   \<and> ifPresent two_containers 0 spy [] = (Inr (), [JNumber 6])
   \<and> fst (failing (value' (objects two_containers 0)) []) = Inl (Thrown (JNumber 6))
   \<and> fst (ifPresent two_containers 0 (failing :: (js_value list, unit) callback) []) = Inl (Thrown (JNumber 6))
   \<and> isEmpty two_containers 1
   \<and> ifPresent two_containers 1 (failing :: (js_value list, unit) callback) [] = (Inr (), [])"
  using ifPresent_calls_action_once [of two_containers 0 "failing :: (js_value list, unit) callback" "[]" "Thrown (JNumber 6)" "[]"]
        ifPresent_calls_action_once [of two_containers 1 "failing :: (js_value list, unit) callback" "[]" "Thrown (JNumber 6)" "[]"]
        two_containers_presence
  by (simp add: two_containers_simps failing_def)

text \<open>
  Claim C7. On an empty container \<open>isPresentAnd(predicate)\<close> is false and \<open>predicate\<close> is
  not called (the caller's world is untouched). On a present container it is the call
  of \<open>predicate\<close> on the stored value, so it is true exactly when the container is present
  and the predicate returns true, and an error thrown by the predicate leaves
  \<open>isPresentAnd\<close>.
\<close>

theorem isPresentAnd_short_circuits:
  "(isEmpty h this \<longrightarrow> isPresentAnd h this predicate w = (Inr False, w))
   \<and> (isPresent h this \<longrightarrow>
        isPresentAnd h this predicate w = predicate (value' (objects h this)) w)
   \<and> (fst (isPresentAnd h this predicate w) = Inr True \<longleftrightarrow>
        isPresent h this \<and> fst (predicate (value' (objects h this)) w) = Inr True)
   \<and> (isPresent h this \<and> fst (predicate (value' (objects h this)) w) = Inl e \<longrightarrow>
        fst (isPresentAnd h this predicate w) = Inl e)"
  by (auto simp: isPresentAnd_def isEmpty_def)

theorem isPresentAnd_short_circuits_witness:
  "isPresent two_containers 0
   \<and> isPresentAnd two_containers 0 greater_than_five [] = (Inr True, [JNumber 6])
   \<and> fst (failing (value' (objects two_containers 0)) []) = Inl (Thrown (JNumber 6))
   \<and> fst (isPresentAnd two_containers 0 failing []) = Inl (Thrown (JNumber 6))
   \<and> isEmpty two_containers 1
   \<and> isPresentAnd two_containers 1 greater_than_five [] = (Inr False, [])"
  using isPresentAnd_short_circuits [of two_containers 0 greater_than_five "[]"]
        isPresentAnd_short_circuits [of two_containers 0 failing "[]" "Thrown (JNumber 6)"]
        isPresentAnd_short_circuits [of two_containers 1 greater_than_five "[]"]
        two_containers_presence
  by (simp add: two_containers_simps failing_def greater_than_five_def)

section \<open>Asynchronous conditional execution\<close>

lemma settle_await:
  "settle n (await p (\<lambda>_. Settled (Inr ()))) w =
     (map_option (map_sum id (\<lambda>_. ())) (fst (settle n p w)), snd (settle n p w))"
proof (induction n arbitrary: p w)
  case 0
  show ?case by (cases p) (auto split: sum.splits)
next
  case (Suc n)
  show ?case
  proof (cases p)
    case (Settled r)
    then show ?thesis by (auto split: sum.splits)
  next
    case (Pending f)
    then show ?thesis by (simp add: Suc.IH split: prod.splits)
  qed
qed

text \<open>
  Claim C8. On an empty container \<open>ifPresentAsync(action)\<close> returns a promise that is
  already fulfilled, and \<open>action\<close> is not called (the caller's world is untouched). On a
  present container \<open>action\<close> is called once on the stored value; if the call throws, the
  returned promise is rejected with that error; otherwise, after any number of
  resumptions by the event loop, the returned promise has settled exactly if the promise
  of \<open>action\<close> has, fulfilled if that one is fulfilled and rejected with the same error if
  that one is rejected, and the world is the one \<open>action\<close> has left.
\<close>

theorem ifPresentAsync_awaits_action:
  "(isEmpty h this \<longrightarrow> ifPresentAsync h this func w = (Settled (Inr ()), w))
   \<and> (isPresent h this \<and> func (value' (objects h this)) w = (Inl e, w') \<longrightarrow>
        ifPresentAsync h this func w = (Settled (Inl e), w'))
   \<and> (isPresent h this \<and> func (value' (objects h this)) w = (Inr p, w') \<longrightarrow>
        snd (ifPresentAsync h this func w) = w'
        \<and> settle n (fst (ifPresentAsync h this func w)) w' =
            (map_option (map_sum id (\<lambda>_. ())) (fst (settle n p w')), snd (settle n p w')))"
  by (simp add: ifPresentAsync_def isEmpty_def settle_await)

theorem ifPresentAsync_awaits_action_witness:
  "isEmpty two_containers 1
   \<and> ifPresentAsync two_containers 1 slow_spy [] = (Settled (Inr ()), [])
   \<and> isPresent two_containers 0
   \<and> snd (ifPresentAsync two_containers 0 slow_spy []) = [JNumber 6]
   \<and> settle 1 (fst (ifPresentAsync two_containers 0 slow_spy [])) [JNumber 6]
       = (None, [JNumber 6])
   \<and> settle 2 (fst (ifPresentAsync two_containers 0 slow_spy [])) [JNumber 6]
       = (Some (Inr ()), [JNumber 6, JNumber 6])
   \<and> settle 1 (fst (ifPresentAsync two_containers 0 rejecting [])) [JNumber 6]
       = (Some (Inl (Thrown (JNumber 6))), [JNumber 6])
   \<and> ifPresentAsync two_containers 0
        (failing :: (js_value list, (js_value list, unit) promise) callback) [] = (Settled (Inl (Thrown (JNumber 6))), [JNumber 6])"
  using ifPresentAsync_awaits_action
          [of two_containers 1 slow_spy "[]"]
        ifPresentAsync_awaits_action
          [of two_containers 0 slow_spy "[]" _ "[JNumber 6]"
              "Pending (\<lambda>w1. (Pending (\<lambda>w2. (Settled (Inr ()), w2 @ [JNumber 6])), w1))" 1]
        ifPresentAsync_awaits_action
          [of two_containers 0 slow_spy "[]" _ "[JNumber 6]"
              "Pending (\<lambda>w1. (Pending (\<lambda>w2. (Settled (Inr ()), w2 @ [JNumber 6])), w1))" 2]
        ifPresentAsync_awaits_action
          [of two_containers 0 rejecting "[]" _ "[JNumber 6]"
              "Pending (\<lambda>w1. (Settled (Inl (Thrown (JNumber 6))), w1))" 1]
        ifPresentAsync_awaits_action
          [of two_containers 0
              "failing :: (js_value list, (js_value list, unit) promise) callback" "[]"
              "Thrown (JNumber 6)" "[JNumber 6]"]
        two_containers_presence
  by (simp add: two_containers_simps slow_spy_def rejecting_def failing_def numeral_2_eq_2)

section \<open>Emptiness\<close>

lemma run_queries:
  "set cs \<subseteq> {IsPresent a, IsEmpty a} \<Longrightarrow> run cs s = s"
  by (induction cs arbitrary: s) auto

text \<open>
  Claim C9. \<open>isEmpty()\<close> is the negation of \<open>isPresent()\<close>. Both leave the heap and the
  caller's world as they were, both depend only on the stored value of the container,
  and after any number of calls of the two on a container each still returns what it
  returned before.
\<close>

theorem isEmpty_negates_isPresent:
  "isEmpty h this = (\<not> isPresent h this)
   \<and> exec (IsEmpty this) s = (Inr (RBoolean (\<not> isPresent (opts s) this)), s)
   \<and> exec (IsPresent this) s = (Inr (RBoolean (isPresent (opts s) this)), s)
   \<and> (objects h' this = objects h this \<longrightarrow>
        isPresent h' this = isPresent h this \<and> isEmpty h' this = isEmpty h this)
   \<and> (set cs \<subseteq> {IsPresent this, IsEmpty this} \<longrightarrow>
        exec (IsPresent this) (run cs s) = exec (IsPresent this) s
        \<and> exec (IsEmpty this) (run cs s) = exec (IsEmpty this) s)"
  using run_queries [of cs this s]
  by (auto simp: isEmpty_def isPresent_def)

theorem isEmpty_negates_isPresent_witness:
  "set [IsPresent 0, IsEmpty 0, IsEmpty 0] \<subseteq> {IsPresent 0, IsEmpty 0 :: unit op}
   \<and> exec (IsPresent 0)
         (run [IsPresent 0, IsEmpty 0, IsEmpty 0] \<lparr>opts = two_containers, world = ()\<rparr>)
       = (Inr (RBoolean True), \<lparr>opts = two_containers, world = ()\<rparr>)
   \<and> exec (IsEmpty 0)
         (run [IsPresent 0, IsEmpty 0, IsEmpty 0] \<lparr>opts = two_containers, world = ()\<rparr>)
       = (Inr (RBoolean False), \<lparr>opts = two_containers, world = ()\<rparr>)
   \<and> objects (snd (orElse two_containers 1 (JNumber 5))) 0 = objects two_containers 0
   \<and> isPresent (snd (orElse two_containers 1 (JNumber 5))) 0
   \<and> \<not> isEmpty (snd (orElse two_containers 1 (JNumber 5))) 0"
  using isEmpty_negates_isPresent
          [of two_containers 0 "\<lparr>opts = two_containers, world = ()\<rparr>"
              "snd (orElse two_containers 1 (JNumber 5))"
              "[IsPresent 0, IsEmpty 0, IsEmpty 0]"]
        two_containers_presence orElse_others [of 0 1 two_containers "JNumber 5"]
  by (simp add: isEmpty_def)

end
